theory Spec2Isabelle
  imports Main
begin

section \<open>devnest: the command blocks of \<open>JenkinsNodeShell.main\<close>\<close>

text \<open>
  The development embeds \<open>src/devnest/lib/cli.py\<close>. \<open>JenkinsNodeShell.main\<close> is a
  sequence of blocks \<open>if parser_args.action is Action.X:\<close>, of which exactly one runs.
  The blocks RESERVE, EXTEND, RELEASE, GROUP and CAPABILITIES are embedded here, one
  function each; the LIST block (rendering) and the SETUP block (XML upload) are not.

  cli.py calls into \<open>devnest.lib.jenkins\<close> and \<open>devnest.lib.node\<close>, whose sources are not
  part of \<open>src/\<close>. Every definition that stands for one of their functions says so in its
  comment (\<open>Modelled from the spec:\<close>) and follows the specification's data model and
  component contracts.
\<close>

subsection \<open>Data model\<close>

text \<open>
  Modelled from the spec: \<open>devnest.lib.node.NodeStatus\<close> is missing; the specification's
  NodeRecord lists the status values.
\<close>

datatype NodeStatus = ONLINE | OFFLINE | JOB_RUNNING | RESERVED | REPROVISION_PENDING | UNKNOWN

text \<open>A capability value is a string or a number.\<close>

datatype cap_value = CapStr string | CapNum int

text \<open>
  Modelled from the spec: ReservationState. Timestamps are integers counted in hours, so that
  \<open>now + duration_hours\<close> is an addition.
\<close>

record ReservationState =
  owner :: string
  created_at :: int
  expires_at :: int

text \<open>
  Modelled from the spec: NodeRecord, the data behind a \<open>devnest.lib.node\<close> object. The
  accessors \<open>get_name()\<close>, \<open>get_node_status()\<close> and \<open>node_details.get_node_labels()\<close> of
  cli.py read the fields \<open>name\<close>, \<open>status\<close> and \<open>groups\<close>; the labels are kept as the list the
  accessor returns.
\<close>

record NodeRecord =
  name :: string
  status :: NodeStatus
  groups :: "string list"
  capabilities :: "string \<rightharpoonup> cap_value"
  reservation :: "ReservationState option"

text \<open>
  Modelled from the spec: the \<open>JenkinsInstance\<close> object, i.e. the remote registry as one
  command sees it: the fetched nodes in fetch order, the acting identity
  (\<open>get_jenkins_username()\<close>), the current time, and two things the registry side decides:
  \<open>re_search p s\<close>, whether the regular expression \<open>p\<close> matches the node name \<open>s\<close> (Python's
  \<open>re\<close>), and \<open>idle_status\<close>, the status the registry gives a released node that is not
  brought online.
\<close>

record JenkinsInstance =
  nodes :: "NodeRecord list"
  jenkins_user :: string
  now :: int
  re_search :: "string \<Rightarrow> string \<Rightarrow> bool"
  idle_status :: "NodeRecord \<Rightarrow> NodeStatus"

text \<open>
  The namespace \<open>argparse\<close> hands to \<open>main\<close>. One record holds the attributes of all five
  subcommands; a block reads only the attributes its subparser defines. \<open>group\<close> and
  \<open>all_opt\<close> are \<open>-g/--group\<close> and \<open>-a/--all\<close>; \<open>owner_opt\<close> is \<open>-o/--owner\<close> of reserve (None
  when not given); \<open>get_opt\<close>, \<open>clear_opt\<close>, \<open>set_opt\<close>, \<open>add_opt\<close>, \<open>remove_opt\<close> are the options
  of the group subcommand; \<open>capability_set\<close> is \<open>-s/--set\<close> of the capability subcommand, the
  JSON dictionary already decoded (None for the empty argument string, which Python takes
  as false).
\<close>

record parser_args =
  node_regex :: "string option"
  group :: string
  all_opt :: bool
  time :: int
  json :: bool
  owner_opt :: "string option"
  force :: bool
  online :: bool
  pending :: bool
  get_opt :: bool
  clear_opt :: bool
  set_opt :: "string option"
  add_opt :: "string option"
  remove_opt :: "string option"
  capability_set :: "(string \<rightharpoonup> cap_value) option"

subsection \<open>Errors and output\<close>

text \<open>
  cli.py raises one exception class, \<open>CommandError\<close>, with five different messages. The
  message is kept as a value that holds what the text interpolates:
  \<^item> \<open>Found_nodes_reservation k t\<close>: "Found k nodes maching your reservation", followed, when
    \<open>t = Some ns\<close>, by ". Please specify only one." and the table of the nodes \<open>ns\<close>;
  \<^item> \<open>Found_nodes_pattern k t\<close>: the same with "maching your node pattern";
  \<^item> \<open>Running_CI_job n g\<close>: "Node ... is currently running CI job. Use --force flag to
    reserve the node. ...", with the name and URL of \<open>n\<close> and the group \<open>g\<close>;
  \<^item> \<open>Not_online n\<close>: "Node ... is not online and can not be reserved. Node status: ...";
  \<^item> \<open>Reserved_by n u\<close>: "Node ... is reserved by u and can not be released unless used with
    --force flag."
  The specification calls the first two CardinalityError, the next two ConflictError and
  the last OwnershipError.
\<close>

datatype err_msg =
    Found_nodes_reservation nat "NodeRecord list option"
  | Found_nodes_pattern nat "NodeRecord list option"
  | Running_CI_job NodeRecord "string option"
  | Not_online NodeRecord
  | Reserved_by NodeRecord "string option"

text \<open>
  Modelled from the spec: the errors of the missing \<open>Node.extend_reservation\<close>.
  \<open>OwnershipError\<close> is the specification's error of that name; \<open>NotReserved\<close> stands for the
  call on a node without reservation, which the specification excludes by precondition.
\<close>

datatype error =
    CommandError err_msg
  | OwnershipError
  | NotReserved

text \<open>
  Modelled from the spec: the reservation info \<open>Node.reserve\<close> returns (owner, node name,
  expiry).
\<close>

record ReservationInfo =
  info_owner :: string
  info_node :: string
  info_expires_at :: int

text \<open>
  What a block prints: \<open>Json_info i\<close> is \<open>print(json.dumps(info))\<close>; \<open>Available_groups G\<close> is
  the line "Available groups: " followed by the elements of the Python set \<open>G\<close>, joined by
  commas in the set's iteration order.
\<close>

datatype printed = Json_info ReservationInfo | Available_groups "string set"

text \<open>
  The result of a block: \<open>Inl e\<close> when the exception \<open>e\<close> leaves \<open>main\<close> (every exception of
  the blocks is raised before any call that changes the registry, so the registry is as it
  was), \<open>Inr (j, out)\<close> when the block ends with the registry \<open>j\<close> after printing \<open>out\<close>.
\<close>

type_synonym result = "error + (JenkinsInstance \<times> printed list)"

subsection \<open>The registry and the node methods\<close>

text \<open>
  Modelled from the spec: \<open>JenkinsInstance.get_nodes(node_regex, group)\<close>, the specification's
  NodeSelector. No pattern selects every node, a pattern those whose name it matches; no
  group means all nests, a group restricts to the nodes that carry it. The result keeps
  the fetch order.
\<close>

definition get_nodes :: "JenkinsInstance \<Rightarrow> string option \<Rightarrow> string option \<Rightarrow> NodeRecord list" where
  "get_nodes j pattern nest =
     filter (\<lambda>n. (case pattern of None \<Rightarrow> True | Some p \<Rightarrow> re_search j p (name n)) \<and>
                  (case nest of None \<Rightarrow> True | Some g \<Rightarrow> g \<in> set (groups n)))
            (nodes j)"

text \<open>
  Modelled from the spec: an atomic remote mutation addresses the node by its name; \<open>push\<close>
  stores the new record of a node in the registry.
\<close>

definition push :: "JenkinsInstance \<Rightarrow> NodeRecord \<Rightarrow> JenkinsInstance" where
  "push j n' = j\<lparr>nodes := map (\<lambda>m. if name m = name n' then n' else m) (nodes j)\<rparr>"

text \<open>
  Modelled from the spec: \<open>Node.get_reservation_owner()\<close>, the owner of the node's
  reservation, Python's None for a node without one.
\<close>

definition get_reservation_owner :: "NodeRecord \<Rightarrow> string option" where
  "get_reservation_owner n = map_option owner (reservation n)"

text \<open>
  Modelled from the spec: \<open>Node.reserve(time, owner, force_reserve)\<close>. The reservation gets the
  given owner, or the acting identity when none is given, and expires at now plus the
  duration; the status becomes RESERVED, except that a node running a job keeps
  JOB_RUNNING; the reservation info is returned.
\<close>

definition reserve ::
  "JenkinsInstance \<Rightarrow> NodeRecord \<Rightarrow> int \<Rightarrow> string option \<Rightarrow> bool \<Rightarrow> error + (JenkinsInstance \<times> ReservationInfo)" where
  "reserve j n duration_hours owner_arg force_reserve =
     (let who = (case owner_arg of None \<Rightarrow> jenkins_user j | Some w \<Rightarrow> w);
          until = now j + duration_hours;
          n' = n\<lparr>status := (if status n = JOB_RUNNING then JOB_RUNNING else RESERVED),
                 reservation := Some \<lparr>owner = who, created_at = now j, expires_at = until\<rparr>\<rparr>
      in Inr (push j n', \<lparr>info_owner = who, info_node = name n, info_expires_at = until\<rparr>))"

text \<open>
  Modelled from the spec: \<open>Node.extend_reservation(time, force)\<close>. It fails with
  OwnershipError when the owner is not the acting identity and force is not set;
  otherwise the expiry moves by the additional hours.
\<close>

definition extend_reservation :: "JenkinsInstance \<Rightarrow> NodeRecord \<Rightarrow> int \<Rightarrow> bool \<Rightarrow> error + JenkinsInstance" where
  "extend_reservation j n additional_hours force_extend =
     (case reservation n of
        None \<Rightarrow> Inl NotReserved
      | Some r \<Rightarrow>
          if owner r \<noteq> jenkins_user j \<and> \<not> force_extend then Inl OwnershipError
          else Inr (push j (n\<lparr>reservation := Some (r\<lparr>expires_at := expires_at r + additional_hours\<rparr>)\<rparr>)))"

text \<open>
  Modelled from the spec: \<open>Node.set_reprovision_pending()\<close> marks the node
  REPROVISION_PENDING.
\<close>

definition set_reprovision_pending :: "JenkinsInstance \<Rightarrow> NodeRecord \<Rightarrow> JenkinsInstance" where
  "set_reprovision_pending j n = push j (n\<lparr>status := REPROVISION_PENDING\<rparr>)"

text \<open>
  Modelled from the spec: \<open>Node.clear_reservation(bring_online)\<close>. The reservation is
  destroyed and the status becomes ONLINE if \<open>bring_online\<close>, else the registry's idle
  state; on a node with no active reservation it is a no-op.
\<close>

definition clear_reservation :: "JenkinsInstance \<Rightarrow> NodeRecord \<Rightarrow> bool \<Rightarrow> JenkinsInstance" where
  "clear_reservation j n bring_online =
     (case reservation n of
        None \<Rightarrow> j
      | Some r \<Rightarrow> push j (n\<lparr>status := (if bring_online then ONLINE else idle_status j n),
                            reservation := None\<rparr>))"

text \<open>
  Modelled from the spec: the group methods of Node (the specification's GroupManager):
  clear empties the groups, set replaces them, add is the union, remove the difference.
\<close>

definition clear_all_groups :: "JenkinsInstance \<Rightarrow> NodeRecord \<Rightarrow> JenkinsInstance" where
  "clear_all_groups j n = push j (n\<lparr>groups := []\<rparr>)"

definition update_with_groups :: "JenkinsInstance \<Rightarrow> NodeRecord \<Rightarrow> string list \<Rightarrow> JenkinsInstance" where
  "update_with_groups j n gs = push j (n\<lparr>groups := remdups gs\<rparr>)"

definition add_groups :: "JenkinsInstance \<Rightarrow> NodeRecord \<Rightarrow> string list \<Rightarrow> JenkinsInstance" where
  "add_groups j n gs = push j (n\<lparr>groups := groups n @ filter (\<lambda>g. g \<notin> set (groups n)) (remdups gs)\<rparr>)"

definition remove_groups :: "JenkinsInstance \<Rightarrow> NodeRecord \<Rightarrow> string list \<Rightarrow> JenkinsInstance" where
  "remove_groups j n gs = push j (n\<lparr>groups := filter (\<lambda>g. g \<notin> set gs) (groups n)\<rparr>)"

text \<open>
  Modelled from the spec: \<open>Node.update_capabilities(patch)\<close> merges the patch into the node's
  capabilities: the keys of the patch get its values, every other key keeps its own.
\<close>

definition update_capabilities :: "JenkinsInstance \<Rightarrow> NodeRecord \<Rightarrow> (string \<rightharpoonup> cap_value) \<Rightarrow> JenkinsInstance" where
  "update_capabilities j n patch = push j (n\<lparr>capabilities := capabilities n ++ patch\<rparr>)"

subsection \<open>Helpers of the blocks\<close>

text \<open>Python's \<open>s.split(",")\<close>.\<close>

fun split_comma :: "string \<Rightarrow> string list" where
  "split_comma [] = [[]]"
| "split_comma (c # cs) =
     (if c = CHR '','' then [] # split_comma cs
      else (case split_comma cs of [] \<Rightarrow> [[c]] | w # ws \<Rightarrow> (c # w) # ws))"

text \<open>Python's truth value of an optional string: None and the empty string are false.\<close>

definition truthy :: "string option \<Rightarrow> bool" where
  "truthy s = (case s of None \<Rightarrow> False | Some t \<Rightarrow> t \<noteq> [])"

text \<open>
  The arity check that four blocks repeat (lines 395-401, 439-445, 454-460, 488-494): the
  count, and the table of the nodes when there is more than one.
\<close>

definition candidates_table :: "NodeRecord list \<Rightarrow> NodeRecord list option" where
  "candidates_table jenkins_nodes = (if length jenkins_nodes > 1 then Some jenkins_nodes else None)"

subsection \<open>The blocks of \<open>main\<close>\<close>

text \<open>
  Each block is split where cli.py has fetched \<open>jenkins_nodes\<close>: \<open>X_block\<close> is the block's
  code after the call of \<open>get_nodes\<close>, \<open>main_X\<close> the whole block.
\<close>

text \<open>Reserve, lines 395-433.\<close>

definition RESERVE_block :: "JenkinsInstance \<Rightarrow> parser_args \<Rightarrow> string option \<Rightarrow> NodeRecord list \<Rightarrow> result" where
  "RESERVE_block j a nest jenkins_nodes =
     (if length jenkins_nodes \<noteq> 1 then
        Inl (CommandError (Found_nodes_reservation (length jenkins_nodes) (candidates_table jenkins_nodes)))
      else
        let reserve_node = jenkins_nodes ! 0 in
        if status reserve_node = JOB_RUNNING \<and> \<not> force a then
          Inl (CommandError (Running_CI_job reserve_node nest))
        else if status reserve_node \<noteq> ONLINE \<and> \<not> force a then
          Inl (CommandError (Not_online reserve_node))
        else
          (case reserve j reserve_node (time a) (owner_opt a) (force a) of
             Inl e \<Rightarrow> Inl e
           | Inr (j', info) \<Rightarrow> Inr (j', if json a then [Json_info info] else [])))"

text \<open>Reserve, lines 388-393: the group is None with \<open>--all\<close>.\<close>

definition main_RESERVE :: "JenkinsInstance \<Rightarrow> parser_args \<Rightarrow> result" where
  "main_RESERVE j a =
     (let nest = (if all_opt a then None else Some (group a))
      in RESERVE_block j a nest (get_nodes j (node_regex a) nest))"

text \<open>Extend, lines 439-448.\<close>

definition EXTEND_block :: "JenkinsInstance \<Rightarrow> parser_args \<Rightarrow> NodeRecord list \<Rightarrow> result" where
  "EXTEND_block j a jenkins_nodes =
     (if length jenkins_nodes \<noteq> 1 then
        Inl (CommandError (Found_nodes_pattern (length jenkins_nodes) (candidates_table jenkins_nodes)))
      else
        let node = jenkins_nodes ! 0 in
        (case extend_reservation j node (time a) (force a) of
           Inl e \<Rightarrow> Inl e
         | Inr j' \<Rightarrow> Inr (j', [])))"

text \<open>Extend, line 437.\<close>

definition main_EXTEND :: "JenkinsInstance \<Rightarrow> parser_args \<Rightarrow> result" where
  "main_EXTEND j a = EXTEND_block j a (get_nodes j (node_regex a) None)"

text \<open>Release, lines 454-475.\<close>

definition RELEASE_block :: "JenkinsInstance \<Rightarrow> parser_args \<Rightarrow> NodeRecord list \<Rightarrow> result" where
  "RELEASE_block j a jenkins_nodes =
     (if length jenkins_nodes \<noteq> 1 then
        Inl (CommandError (Found_nodes_pattern (length jenkins_nodes) (candidates_table jenkins_nodes)))
      else
        let reserve_node = jenkins_nodes ! 0 in
        if pending a then Inr (set_reprovision_pending j reserve_node, [])
        else
          let reserve_user = get_reservation_owner reserve_node;
              jenkins_user = jenkins_user j
          in if reserve_user \<noteq> Some jenkins_user \<and> \<not> force a then
               Inl (CommandError (Reserved_by reserve_node reserve_user))
             else Inr (clear_reservation j reserve_node (online a), []))"

text \<open>Release, line 452.\<close>

definition main_RELEASE :: "JenkinsInstance \<Rightarrow> parser_args \<Rightarrow> result" where
  "main_RELEASE j a = RELEASE_block j a (get_nodes j (node_regex a) None)"

text \<open>Group, lines 482-508.\<close>

definition GROUP_block :: "JenkinsInstance \<Rightarrow> parser_args \<Rightarrow> NodeRecord list \<Rightarrow> result" where
  "GROUP_block j a jenkins_nodes =
     (if get_opt a then
        let all_groups = concat (map groups jenkins_nodes)
        in Inr (j, [Available_groups (set all_groups)])
      else if length jenkins_nodes \<noteq> 1 then
        Inl (CommandError (Found_nodes_pattern (length jenkins_nodes) (candidates_table jenkins_nodes)))
      else
        let node = jenkins_nodes ! 0 in
        if clear_opt a then Inr (clear_all_groups j node, [])
        else if truthy (set_opt a) then Inr (update_with_groups j node (split_comma (the (set_opt a))), [])
        else if truthy (add_opt a) then Inr (add_groups j node (split_comma (the (add_opt a))), [])
        else if truthy (remove_opt a) then Inr (remove_groups j node (split_comma (the (remove_opt a))), [])
        else Inr (j, []))"

text \<open>Group, line 479.\<close>

definition main_GROUP :: "JenkinsInstance \<Rightarrow> parser_args \<Rightarrow> result" where
  "main_GROUP j a = GROUP_block j a (get_nodes j (node_regex a) None)"

text \<open>Capabilities, lines 515-517: the loop over the matched nodes.\<close>

definition CAPABILITIES_block :: "JenkinsInstance \<Rightarrow> parser_args \<Rightarrow> NodeRecord list \<Rightarrow> result" where
  "CAPABILITIES_block j a jenkins_nodes =
     (case capability_set a of
        None \<Rightarrow> Inr (j, [])
      | Some patch \<Rightarrow> Inr (fold (\<lambda>node j'. update_capabilities j' node patch) jenkins_nodes j, []))"

text \<open>Capabilities, line 512.\<close>

definition main_CAPABILITIES :: "JenkinsInstance \<Rightarrow> parser_args \<Rightarrow> result" where
  "main_CAPABILITIES j a = CAPABILITIES_block j a (get_nodes j (node_regex a) None)"

subsection \<open>An example registry\<close>

text \<open>
  Three nodes for the concrete instances below: \<open>lab-01\<close> is online and free, \<open>lab-02\<close> is
  reserved by alice and belongs to another nest only, \<open>dev-01\<close> runs a job. The regular
  expressions of the examples are plain names, matched by equality.
\<close>

definition lab01 :: NodeRecord where
  "lab01 = \<lparr>name = ''lab-01'', status = ONLINE, groups = [''shared''],
            capabilities = [''cpu'' \<mapsto> CapStr ''arm'', ''ram'' \<mapsto> CapNum 64],
            reservation = None\<rparr>"

definition lab02 :: NodeRecord where
  "lab02 = \<lparr>name = ''lab-02'', status = RESERVED, groups = [''other-nest''],
            capabilities = [''ram'' \<mapsto> CapNum 32],
            reservation = Some \<lparr>owner = ''alice'', created_at = 10, expires_at = 13\<rparr>\<rparr>"

definition dev01 :: NodeRecord where
  "dev01 = \<lparr>name = ''dev-01'', status = JOB_RUNNING, groups = [''shared''],
            capabilities = Map.empty, reservation = None\<rparr>"

definition registry :: "string \<Rightarrow> JenkinsInstance" where
  "registry user = \<lparr>nodes = [lab01, lab02, dev01], jenkins_user = user, now = 100,
                    re_search = (\<lambda>p s. p = s), idle_status = (\<lambda>n. OFFLINE)\<rparr>"

definition args0 :: parser_args where
  "args0 = \<lparr>node_regex = None, group = ''shared'', all_opt = False, time = 3, json = False,
            owner_opt = None, force = False, online = False, pending = False, get_opt = False,
            clear_opt = False, set_opt = None, add_opt = None, remove_opt = None,
            capability_set = None\<rparr>"

lemmas ex_defs = registry_def args0_def lab01_def lab02_def dev01_def

section \<open>Properties\<close>

subsection \<open>The arity check\<close>

text \<open>
  C3. When the selector result does not hold exactly one node, reserve, extend, release and
  the mutating group operations (every group operation but get) raise the CommandError
  "Found k nodes ..." (the specification's CardinalityError): it carries the count, and
  the table of the candidates exactly when there are more than one. The arguments are
  arbitrary, so this holds with \<open>force\<close> set as well; the result is an exception, so the
  registry is not changed.
\<close>

theorem cardinality_error:
  "(let ns = get_nodes j (node_regex a) (if all_opt a then None else Some (group a))
    in length ns \<noteq> 1 \<longrightarrow>
       main_RESERVE j a =
         Inl (CommandError (Found_nodes_reservation (length ns) (if length ns > 1 then Some ns else None))))
   \<and> (let ns = get_nodes j (node_regex a) None;
          e = Inl (CommandError (Found_nodes_pattern (length ns) (if length ns > 1 then Some ns else None)))
      in length ns \<noteq> 1 \<longrightarrow>
         main_EXTEND j a = e \<and> main_RELEASE j a = e \<and> (\<not> get_opt a \<longrightarrow> main_GROUP j a = e))"
  by (simp add: Let_def main_RESERVE_def RESERVE_block_def main_EXTEND_def EXTEND_block_def
      main_RELEASE_def RELEASE_block_def main_GROUP_def GROUP_block_def candidates_table_def)

text \<open>
  With \<open>force\<close> set and no pattern, reserve finds the two nodes of the nest \<open>shared\<close>, the other
  commands all three nodes.
\<close>

theorem cardinality_error_witness:
  "main_RESERVE (registry ''alice'') (args0\<lparr>force := True\<rparr>) =
     Inl (CommandError (Found_nodes_reservation 2 (Some [lab01, dev01])))
   \<and> main_EXTEND (registry ''alice'') (args0\<lparr>force := True\<rparr>) =
     Inl (CommandError (Found_nodes_pattern 3 (Some [lab01, lab02, dev01])))
   \<and> main_RELEASE (registry ''alice'') (args0\<lparr>force := True\<rparr>) =
     Inl (CommandError (Found_nodes_pattern 3 (Some [lab01, lab02, dev01])))
   \<and> main_GROUP (registry ''alice'') (args0\<lparr>force := True\<rparr>) =
     Inl (CommandError (Found_nodes_pattern 3 (Some [lab01, lab02, dev01])))"
  using cardinality_error [of "registry ''alice''" "args0\<lparr>force := True\<rparr>"]
  by (simp add: Let_def get_nodes_def ex_defs)

subsection \<open>Release with \<open>--pending\<close>\<close>

text \<open>
  C6. A release of a single candidate with \<open>pending\<close> set marks the node
  REPROVISION_PENDING, whatever the owner, the acting identity and \<open>force\<close> are: the
  result is never an exception, and the node's record changes in its status only, so the
  reservation is not cleared.
\<close>

theorem release_pending:
  "get_nodes j (node_regex a) None = [n] \<Longrightarrow> pending a \<Longrightarrow>
     main_RELEASE j a = Inr (set_reprovision_pending j n, [])
     \<and> set_reprovision_pending j n
         = j\<lparr>nodes := map (\<lambda>m. if name m = name n then n\<lparr>status := REPROVISION_PENDING\<rparr> else m) (nodes j)\<rparr>"
  by (simp add: main_RELEASE_def RELEASE_block_def set_reprovision_pending_def push_def)

text \<open>bob, without \<open>force\<close>, sets alice's node pending.\<close>

theorem release_pending_witness:
  "main_RELEASE (registry ''bob'') (args0\<lparr>node_regex := Some ''lab-02'', pending := True\<rparr>)
     = Inr ((registry ''bob'')\<lparr>nodes := [lab01, lab02\<lparr>status := REPROVISION_PENDING\<rparr>, dev01]\<rparr>, [])"
  using release_pending [of "registry ''bob''" "args0\<lparr>node_regex := Some ''lab-02'', pending := True\<rparr>" lab02]
  by (simp add: get_nodes_def ex_defs)

subsection \<open>Group get\<close>

text \<open>
  C7. \<open>group --get\<close> prints the union of the groups of all matched nodes, as a set, and leaves
  the registry as it is; when no node matches it prints the empty set and raises nothing.
\<close>

theorem group_get_union:
  "get_opt a \<Longrightarrow>
     main_GROUP j a = Inr (j, [Available_groups (\<Union>n \<in> set (get_nodes j (node_regex a) None). set (groups n))])
     \<and> (get_nodes j (node_regex a) None = [] \<longrightarrow> main_GROUP j a = Inr (j, [Available_groups {}]))"
  by (simp add: main_GROUP_def GROUP_block_def)

text \<open>
  The group \<open>shared\<close> of two nodes appears once; a pattern that matches nothing gives the
  empty set.
\<close>

theorem group_get_union_witness:
  "main_GROUP (registry ''alice'') (args0\<lparr>get_opt := True\<rparr>)
     = Inr (registry ''alice'', [Available_groups {''shared'', ''other-nest''}])
   \<and> main_GROUP (registry ''alice'') (args0\<lparr>get_opt := True, node_regex := Some ''lab-99''\<rparr>)
     = Inr (registry ''alice'', [Available_groups {}])"
  using group_get_union [of "args0\<lparr>get_opt := True\<rparr>" "registry ''alice''"]
    group_get_union [of "args0\<lparr>get_opt := True, node_regex := Some ''lab-99''\<rparr>" "registry ''alice''"]
  by (simp add: get_nodes_def ex_defs insert_commute)

subsection \<open>Capability set\<close>

text \<open>
  C10. \<open>capability --set\<close> with a selector that matches no node ends without an exception and
  leaves the registry as it is.
\<close>

theorem capability_set_no_match:
  "get_nodes j (node_regex a) None = [] \<Longrightarrow> main_CAPABILITIES j a = Inr (j, [])"
  by (simp add: main_CAPABILITIES_def CAPABILITIES_block_def split: option.splits)

theorem capability_set_no_match_witness:
  "main_CAPABILITIES (registry ''alice'')
     (args0\<lparr>node_regex := Some ''lab-99'', capability_set := Some [''cpu'' \<mapsto> CapStr ''x86_64'']\<rparr>)
   = Inr (registry ''alice'', [])"
  using capability_set_no_match [of "registry ''alice''"
      "args0\<lparr>node_regex := Some ''lab-99'', capability_set := Some [''cpu'' \<mapsto> CapStr ''x86_64'']\<rparr>"]
  by (simp add: get_nodes_def ex_defs)

subsection \<open>Ownership\<close>

text \<open>
  C1 (as amended). For a single candidate that carries a reservation, and without \<open>force\<close>:
  extend raises OwnershipError exactly when the reservation's owner differs from the
  acting identity, and otherwise moves the expiry; release without \<open>pending\<close> raises the
  CommandError "Node ... is reserved by ..." (the specification's OwnershipError) exactly
  when the owner differs, and otherwise clears the reservation. The comparison is
  equality of strings, hence exact and case-sensitive.
\<close>

theorem ownership_check:
  "get_nodes j (node_regex a) None = [n] \<Longrightarrow> reservation n = Some r \<Longrightarrow> \<not> force a \<Longrightarrow>
     main_EXTEND j a =
       (if owner r \<noteq> jenkins_user j then Inl OwnershipError
        else Inr (push j (n\<lparr>reservation := Some (r\<lparr>expires_at := expires_at r + time a\<rparr>)\<rparr>), []))
     \<and> (\<not> pending a \<longrightarrow>
          main_RELEASE j a =
            (if owner r \<noteq> jenkins_user j then Inl (CommandError (Reserved_by n (Some (owner r))))
             else Inr (clear_reservation j n (online a), [])))"
  by (simp add: main_EXTEND_def EXTEND_block_def extend_reservation_def
      main_RELEASE_def RELEASE_block_def get_reservation_owner_def)

text \<open>
  The node of alice: bob is refused by extend and by release; alice extends the expiry from
  13 to 15, and releases (the idle status of the example registry is OFFLINE).
\<close>

theorem ownership_check_witness:
  "main_EXTEND (registry ''bob'') (args0\<lparr>node_regex := Some ''lab-02'', time := 2\<rparr>) = Inl OwnershipError
   \<and> main_RELEASE (registry ''bob'') (args0\<lparr>node_regex := Some ''lab-02'', time := 2\<rparr>)
       = Inl (CommandError (Reserved_by lab02 (Some ''alice'')))
   \<and> main_EXTEND (registry ''alice'') (args0\<lparr>node_regex := Some ''lab-02'', time := 2\<rparr>)
       = Inr ((registry ''alice'')\<lparr>nodes := [lab01,
                lab02\<lparr>reservation := Some \<lparr>owner = ''alice'', created_at = 10, expires_at = 15\<rparr>\<rparr>, dev01]\<rparr>, [])
   \<and> main_RELEASE (registry ''alice'') (args0\<lparr>node_regex := Some ''lab-02'', time := 2\<rparr>)
       = Inr ((registry ''alice'')\<lparr>nodes := [lab01, lab02\<lparr>status := OFFLINE, reservation := None\<rparr>, dev01]\<rparr>, [])"
  using ownership_check [of "registry ''bob''" "args0\<lparr>node_regex := Some ''lab-02'', time := 2\<rparr>" lab02
      "\<lparr>owner = ''alice'', created_at = 10, expires_at = 13\<rparr>"]
    ownership_check [of "registry ''alice''" "args0\<lparr>node_regex := Some ''lab-02'', time := 2\<rparr>" lab02
      "\<lparr>owner = ''alice'', created_at = 10, expires_at = 13\<rparr>"]
  by (simp add: get_nodes_def push_def clear_reservation_def ex_defs)

text \<open>
  C1 as stated does not hold for release: with \<open>pending\<close> set, carol releases the node that
  alice has reserved, without \<open>force\<close>, and no exception is raised.
\<close>

theorem release_pending_skips_ownership_counterexample:
  "get_nodes (registry ''carol'') (Some ''lab-02'') None = [lab02]
   \<and> get_reservation_owner lab02 = Some ''alice''
   \<and> jenkins_user (registry ''carol'') = ''carol''
   \<and> \<not> force (args0\<lparr>node_regex := Some ''lab-02'', pending := True, online := True\<rparr>)
   \<and> main_RELEASE (registry ''carol'') (args0\<lparr>node_regex := Some ''lab-02'', pending := True, online := True\<rparr>)
      = Inr ((registry ''carol'')\<lparr>nodes := [lab01, lab02\<lparr>status := REPROVISION_PENDING\<rparr>, dev01]\<rparr>, [])"
  by (simp add: main_RELEASE_def RELEASE_block_def set_reprovision_pending_def push_def
      get_reservation_owner_def get_nodes_def ex_defs)

subsection \<open>Release of a node without reservation\<close>

text \<open>
  Lines 467-473 compare the owner that the node reports with the acting identity for every
  single candidate, whether it carries a reservation or not. Without \<open>pending\<close> and without
  \<open>force\<close>, a node whose reported owner is not the acting identity is refused, whatever
  \<open>get_reservation_owner\<close> returns for it.
\<close>

lemma release_owner_mismatch:
  "get_nodes j (node_regex a) None = [n] \<Longrightarrow> \<not> pending a \<Longrightarrow> \<not> force a \<Longrightarrow>
   get_reservation_owner n \<noteq> Some (jenkins_user j) \<Longrightarrow>
     main_RELEASE j a = Inl (CommandError (Reserved_by n (get_reservation_owner n)))"
  by (simp add: main_RELEASE_def RELEASE_block_def)

text \<open>With \<open>force\<close> the comparison is skipped, and the release of a free node changes nothing.\<close>

lemma release_unreserved_forced:
  "get_nodes j (node_regex a) None = [n] \<Longrightarrow> reservation n = None \<Longrightarrow> \<not> pending a \<Longrightarrow> force a \<Longrightarrow>
     main_RELEASE j a = Inr (j, [])"
  by (simp add: main_RELEASE_def RELEASE_block_def clear_reservation_def)

text \<open>
  C4. The claim is that a release without \<open>pending\<close> of a node with no active reservation
  succeeds as a no-op. The code does not do that: alice releases the free node \<open>lab-01\<close>
  without \<open>force\<close>; the node reports no owner, which is not alice, and line 473 raises the
  CommandError "Node lab-01 is reserved by ... and can not be released unless used with
  --force flag". The comment of line 244 gives \<open>--force\<close> the purpose of releasing a node
  reserved by a different user, and the message speaks of a reservation: the comparison
  of line 469 misses the node that nobody has reserved.
\<close>

theorem release_unreserved_raises:
  "reservation lab01 = None
   \<and> \<not> pending (args0\<lparr>node_regex := Some ''lab-01''\<rparr>)
   \<and> \<not> force (args0\<lparr>node_regex := Some ''lab-01''\<rparr>)
   \<and> get_nodes (registry ''alice'') (Some ''lab-01'') None = [lab01]
   \<and> main_RELEASE (registry ''alice'') (args0\<lparr>node_regex := Some ''lab-01''\<rparr>)
       = Inl (CommandError (Reserved_by lab01 (get_reservation_owner lab01)))"
  using release_owner_mismatch [of "registry ''alice''" "args0\<lparr>node_regex := Some ''lab-01''\<rparr>" lab01]
  by (simp add: get_reservation_owner_def get_nodes_def ex_defs)

subsection \<open>Reserve\<close>

lemma status_update_same: "status n = s \<Longrightarrow> n\<lparr>status := s\<rparr> = n"
  by (cases n) simp

text \<open>
  C2. For a single candidate whose status is JOB_RUNNING, reserve without \<open>force\<close> raises
  the CommandError "Node ... is currently running CI job ..." (the specification's
  ConflictError), an exception, so nothing is changed; with \<open>force\<close> it raises nothing and
  stores the reservation on the node, whose status stays JOB_RUNNING.
\<close>

theorem reserve_job_running:
  "get_nodes j (node_regex a) (if all_opt a then None else Some (group a)) = [n] \<Longrightarrow>
   status n = JOB_RUNNING \<Longrightarrow>
     (\<not> force a \<longrightarrow>
        main_RESERVE j a =
          Inl (CommandError (Running_CI_job n (if all_opt a then None else Some (group a)))))
     \<and> (force a \<longrightarrow>
        main_RESERVE j a =
          (let who = (case owner_opt a of None \<Rightarrow> jenkins_user j | Some w \<Rightarrow> w)
           in Inr (push j (n\<lparr>reservation :=
                               Some \<lparr>owner = who, created_at = now j, expires_at = now j + time a\<rparr>\<rparr>),
                   if json a then [Json_info \<lparr>info_owner = who, info_node = name n,
                                               info_expires_at = now j + time a\<rparr>]
                   else [])))"
  by (simp add: main_RESERVE_def RESERVE_block_def reserve_def Let_def status_update_same)

theorem reserve_job_running_witness:
  "main_RESERVE (registry ''alice'') (args0\<lparr>node_regex := Some ''dev-01''\<rparr>)
     = Inl (CommandError (Running_CI_job dev01 (Some ''shared'')))
   \<and> main_RESERVE (registry ''alice'') (args0\<lparr>node_regex := Some ''dev-01'', force := True\<rparr>)
     = Inr ((registry ''alice'')\<lparr>nodes := [lab01, lab02,
              dev01\<lparr>reservation := Some \<lparr>owner = ''alice'', created_at = 100, expires_at = 103\<rparr>\<rparr>]\<rparr>, [])"
  using reserve_job_running [of "registry ''alice''" "args0\<lparr>node_regex := Some ''dev-01''\<rparr>" dev01]
    reserve_job_running [of "registry ''alice''" "args0\<lparr>node_regex := Some ''dev-01'', force := True\<rparr>" dev01]
  by (simp add: get_nodes_def push_def ex_defs)

lemma get_nodes_subset: "get_nodes j p g = [n] \<Longrightarrow> n \<in> set (nodes j)"
proof -
  assume "get_nodes j p g = [n]"
  then have "n \<in> set (get_nodes j p g)" by simp
  then show ?thesis by (simp add: get_nodes_def)
qed

lemma push_mem: "n \<in> set (nodes j) \<Longrightarrow> name n' = name n \<Longrightarrow> n' \<in> set (nodes (push j n'))"
  by (auto simp: push_def image_iff intro!: bexI [of _ n])

text \<open>
  C5. For a single candidate \<open>n\<close> whose status is ONLINE, reserve without \<open>force\<close> for the
  owner \<open>w\<close> and the duration \<open>time a\<close> succeeds: \<open>Node.reserve\<close> returns the info with the owner
  \<open>w\<close>, the name of \<open>n\<close> and the expiry now plus the duration (printed with \<open>--json\<close>), and the
  registry then holds the node with status RESERVED and that reservation. The scenario
  of the specification is the instance with owner alice and three hours.
\<close>

theorem reserve_online:
  "get_nodes j (node_regex a) (if all_opt a then None else Some (group a)) = [n] \<Longrightarrow>
   status n = ONLINE \<Longrightarrow> \<not> force a \<Longrightarrow> owner_opt a = Some w \<Longrightarrow>
     (let n' = n\<lparr>status := RESERVED,
                  reservation := Some \<lparr>owner = w, created_at = now j, expires_at = now j + time a\<rparr>\<rparr>;
          info = \<lparr>info_owner = w, info_node = name n, info_expires_at = now j + time a\<rparr>
      in reserve j n (time a) (Some w) False = Inr (push j n', info)
         \<and> main_RESERVE j a = Inr (push j n', if json a then [Json_info info] else [])
         \<and> n' \<in> set (nodes (push j n')) \<and> status n' = RESERVED)"
proof -
  assume sel: "get_nodes j (node_regex a) (if all_opt a then None else Some (group a)) = [n]"
    and st: "status n = ONLINE" and nf: "\<not> force a" and ow: "owner_opt a = Some w"
  define n' where "n' = n\<lparr>status := RESERVED,
      reservation := Some \<lparr>owner = w, created_at = now j, expires_at = now j + time a\<rparr>\<rparr>"
  have "n \<in> set (nodes j)"
    using sel by (rule get_nodes_subset)
  moreover have "name n' = name n"
    by (simp add: n'_def)
  ultimately have mem: "n' \<in> set (nodes (push j n'))"
    by (rule push_mem)
  have res: "reserve j n (time a) (Some w) False
      = Inr (push j n', \<lparr>info_owner = w, info_node = name n, info_expires_at = now j + time a\<rparr>)"
    using st by (simp add: reserve_def n'_def Let_def)
  have "main_RESERVE j a
      = Inr (push j n', if json a then [Json_info \<lparr>info_owner = w, info_node = name n,
                                                    info_expires_at = now j + time a\<rparr>] else [])"
    using sel st nf ow res by (simp add: main_RESERVE_def RESERVE_block_def)
  with res mem show ?thesis
    by (simp add: n'_def Let_def)
qed

text \<open>\<open>lab-01\<close> is online and free; at time 100 the reservation for three hours expires at 103.\<close>

theorem reserve_online_witness:
  "reserve (registry ''bob'') lab01 3 (Some ''alice'') False
     = Inr ((registry ''bob'')\<lparr>nodes := [lab01\<lparr>status := RESERVED,
                reservation := Some \<lparr>owner = ''alice'', created_at = 100, expires_at = 103\<rparr>\<rparr>, lab02, dev01]\<rparr>,
            \<lparr>info_owner = ''alice'', info_node = ''lab-01'', info_expires_at = 103\<rparr>)
   \<and> main_RESERVE (registry ''bob'')
        (args0\<lparr>node_regex := Some ''lab-01'', owner_opt := Some ''alice'', json := True\<rparr>)
     = Inr ((registry ''bob'')\<lparr>nodes := [lab01\<lparr>status := RESERVED,
                reservation := Some \<lparr>owner = ''alice'', created_at = 100, expires_at = 103\<rparr>\<rparr>, lab02, dev01]\<rparr>,
            [Json_info \<lparr>info_owner = ''alice'', info_node = ''lab-01'', info_expires_at = 103\<rparr>])"
  using reserve_online [of "registry ''bob''"
      "args0\<lparr>node_regex := Some ''lab-01'', owner_opt := Some ''alice'', json := True\<rparr>" lab01 "''alice''"]
  by (simp add: get_nodes_def push_def ex_defs Let_def)

subsection \<open>Capability set on the matched nodes\<close>

text \<open>The loop of lines 516-517 over nodes with distinct names, as one pass over the registry.\<close>

lemma fold_update_capabilities:
  "distinct (map name ns) \<Longrightarrow>
   fold (\<lambda>node j'. update_capabilities j' node patch) ns j =
     j\<lparr>nodes := map (\<lambda>m. case find (\<lambda>n. name n = name m) ns of
                             None \<Rightarrow> m | Some n \<Rightarrow> n\<lparr>capabilities := capabilities n ++ patch\<rparr>)
                     (nodes j)\<rparr>"
proof (induction ns arbitrary: j)
  case Nil
  then show ?case by simp
next
  case (Cons x xs)
  from Cons.prems have fresh: "name x \<notin> name ` set xs" and dist: "distinct (map name xs)"
    by simp_all
  have none: "find (\<lambda>n. name n = name x) xs = None"
    using fresh by (auto simp: find_None_iff image_iff)
  show ?case
    using Cons.IH [OF dist, of "update_capabilities j x patch"] none
    by (auto simp: update_capabilities_def push_def)
qed

lemma find_in_filter:
  assumes "distinct (map name xs)" and "m \<in> set xs"
  shows "find (\<lambda>n. name n = name m) (filter P xs) = (if P m then Some m else None)"
proof (cases "P m")
  case True
  have inj: "inj_on name (set xs)"
    using assms(1) by (simp add: distinct_map)
  obtain y where y: "find (\<lambda>n. name n = name m) (filter P xs) = Some y"
    using True assms(2)
    by (cases "find (\<lambda>n. name n = name m) (filter P xs)") (auto simp: find_None_iff)
  then have "y \<in> set xs" and "name y = name m"
    by (auto simp: find_Some_iff in_set_conv_nth dest: nth_mem)
  with inj assms(2) have "y = m"
    by (auto dest: inj_onD)
  with y True show ?thesis by simp
next
  case False
  then have "find (\<lambda>n. name n = name m) (filter P xs) = None"
    using assms by (auto simp: find_None_iff distinct_map dest: inj_onD)
  with False show ?thesis by simp
qed

text \<open>
  C8. In a registry whose node names are distinct, \<open>capability --set\<close> with the patch \<open>patch\<close>
  raises nothing and changes the registry in this way only: every matched node gets
  the same patch merged into its own capabilities, every other node stays as it is. Key
  by key: on a matched node a key of the patch gets the patch's value, and every other
  key, on every node, keeps the value it had.
\<close>

theorem capability_set_merge:
  assumes "distinct (map name (nodes j))" and "capability_set a = Some patch"
  shows "(let matched = get_nodes j (node_regex a) None;
              j' = j\<lparr>nodes := map (\<lambda>n. if n \<in> set matched
                                          then n\<lparr>capabilities := capabilities n ++ patch\<rparr> else n)
                                   (nodes j)\<rparr>
          in main_CAPABILITIES j a = Inr (j', [])
             \<and> length (nodes j') = length (nodes j)
             \<and> (\<forall>i < length (nodes j). \<forall>k.
                   capabilities (nodes j' ! i) k =
                     (if nodes j ! i \<in> set matched \<and> k \<in> dom patch
                      then patch k else capabilities (nodes j ! i) k)))"
proof -
  let ?P = "\<lambda>n. (case node_regex a of None \<Rightarrow> True | Some p \<Rightarrow> re_search j p (name n))"
  let ?sel = "get_nodes j (node_regex a) None"
  let ?j' = "j\<lparr>nodes := map (\<lambda>n. if n \<in> set ?sel
                                  then n\<lparr>capabilities := capabilities n ++ patch\<rparr> else n) (nodes j)\<rparr>"
  have sel: "?sel = filter ?P (nodes j)"
    by (simp add: get_nodes_def)
  have dsel: "distinct (map name ?sel)"
    using assms(1) by (simp add: sel distinct_map_filter)
  have "fold (\<lambda>node j'. update_capabilities j' node patch) ?sel j
      = j\<lparr>nodes := map (\<lambda>m. case find (\<lambda>n. name n = name m) ?sel of
                             None \<Rightarrow> m | Some n \<Rightarrow> n\<lparr>capabilities := capabilities n ++ patch\<rparr>)
                     (nodes j)\<rparr>"
    using dsel by (rule fold_update_capabilities)
  also have "map (\<lambda>m. case find (\<lambda>n. name n = name m) ?sel of
                             None \<Rightarrow> m | Some n \<Rightarrow> n\<lparr>capabilities := capabilities n ++ patch\<rparr>)
                     (nodes j)
      = map (\<lambda>n. if n \<in> set ?sel then n\<lparr>capabilities := capabilities n ++ patch\<rparr> else n) (nodes j)"
    using assms(1) by (intro map_cong refl) (simp add: sel find_in_filter)
  finally have run: "main_CAPABILITIES j a = Inr (?j', [])"
    using assms(2) by (simp add: main_CAPABILITIES_def CAPABILITIES_block_def)
  have keys: "\<forall>i < length (nodes j). \<forall>k.
                capabilities (nodes ?j' ! i) k =
                  (if nodes j ! i \<in> set ?sel \<and> k \<in> dom patch
                   then patch k else capabilities (nodes j ! i) k)"
    by (auto simp: map_add_def split: option.splits)
  from run keys show ?thesis
    by (simp add: Let_def)
qed

text \<open>
  The patch \<open>cpu = x86_64\<close> on all three nodes: \<open>lab-01\<close> has its \<open>cpu\<close> replaced and keeps \<open>ram\<close>,
  \<open>lab-02\<close> gains \<open>cpu\<close> and keeps \<open>ram\<close>, \<open>dev-01\<close> gains \<open>cpu\<close>.
\<close>

theorem capability_set_merge_witness:
  "main_CAPABILITIES (registry ''alice'') (args0\<lparr>capability_set := Some [''cpu'' \<mapsto> CapStr ''x86_64'']\<rparr>)
     = Inr ((registry ''alice'')\<lparr>nodes :=
          [lab01\<lparr>capabilities := [''cpu'' \<mapsto> CapStr ''x86_64'', ''ram'' \<mapsto> CapNum 64]\<rparr>,
           lab02\<lparr>capabilities := [''ram'' \<mapsto> CapNum 32, ''cpu'' \<mapsto> CapStr ''x86_64'']\<rparr>,
           dev01\<lparr>capabilities := [''cpu'' \<mapsto> CapStr ''x86_64'']\<rparr>]\<rparr>, [])"
  using capability_set_merge [of "registry ''alice''"
      "args0\<lparr>capability_set := Some [''cpu'' \<mapsto> CapStr ''x86_64'']\<rparr>" "[''cpu'' \<mapsto> CapStr ''x86_64'']"]
  by (simp add: get_nodes_def ex_defs fun_eq_iff map_add_def Let_def)

subsection \<open>Selection over all nests\<close>

text \<open>
  C9. The blocks EXTEND, RELEASE, GROUP and CAPABILITIES call \<open>get_nodes\<close> with the group
  None: each of them runs on exactly those nodes of the registry whose name the pattern
  matches (all nodes without a pattern), in registry order. The groups of a node play
  no part: giving the nodes any other groups \<open>f n\<close> selects the nodes of the same names.
\<close>

theorem all_nests_selection:
  "(let ns = filter (\<lambda>n. case node_regex a of None \<Rightarrow> True | Some p \<Rightarrow> re_search j p (name n)) (nodes j)
    in main_EXTEND j a = EXTEND_block j a ns
       \<and> main_RELEASE j a = RELEASE_block j a ns
       \<and> main_GROUP j a = GROUP_block j a ns
       \<and> main_CAPABILITIES j a = CAPABILITIES_block j a ns)
   \<and> map name (get_nodes (j\<lparr>nodes := map (\<lambda>n. n\<lparr>groups := f n\<rparr>) (nodes j)\<rparr>) (node_regex a) None)
       = map name (get_nodes j (node_regex a) None)"
proof -
  have "map name (filter P (map (\<lambda>n. n\<lparr>groups := f n\<rparr>) xs))
      = map name (filter (\<lambda>n. P (n\<lparr>groups := f n\<rparr>)) xs)"
    for P and xs :: "NodeRecord list"
    by (induction xs) simp_all
  then show ?thesis
    by (simp add: Let_def get_nodes_def main_EXTEND_def main_RELEASE_def main_GROUP_def
        main_CAPABILITIES_def cong: option.case_cong)
qed

text \<open>\<open>lab-02\<close> is not in the nest \<open>shared\<close>, and all four blocks run on it.\<close>

theorem all_nests_selection_witness:
  "''shared'' \<notin> set (groups lab02)
   \<and> main_EXTEND (registry ''alice'') (args0\<lparr>node_regex := Some ''lab-02''\<rparr>)
       = EXTEND_block (registry ''alice'') (args0\<lparr>node_regex := Some ''lab-02''\<rparr>) [lab02]
   \<and> main_RELEASE (registry ''alice'') (args0\<lparr>node_regex := Some ''lab-02''\<rparr>)
       = RELEASE_block (registry ''alice'') (args0\<lparr>node_regex := Some ''lab-02''\<rparr>) [lab02]
   \<and> main_GROUP (registry ''alice'') (args0\<lparr>node_regex := Some ''lab-02''\<rparr>)
       = GROUP_block (registry ''alice'') (args0\<lparr>node_regex := Some ''lab-02''\<rparr>) [lab02]
   \<and> main_CAPABILITIES (registry ''alice'') (args0\<lparr>node_regex := Some ''lab-02''\<rparr>)
       = CAPABILITIES_block (registry ''alice'') (args0\<lparr>node_regex := Some ''lab-02''\<rparr>) [lab02]"
  using all_nests_selection [where a = "args0\<lparr>node_regex := Some ''lab-02''\<rparr>" and j = "registry ''alice''"]
  by (simp add: Let_def ex_defs)

end
